theory Spec2Isabelle
  imports Complex_Main "HOL-Library.Word"
begin

section \<open>Values of the Go program\<close>

text \<open>
  Go's \<open>int\<close> is taken at its width on 64-bit platforms: a 64-bit word whose addition wraps
  around and that is read as a signed number (\<open>sint\<close>). A \<open>[]byte\<close> is a list of 8-bit
  characters. An \<open>error\<close> value carries its message; \<open>nil\<close> is \<open>None\<close>.
\<close>

type_synonym goint = "64 word"
type_synonym byte = char

datatype error = Errorf string

datatype conn = Conn nat
datatype bufrw = ReadWriter nat

text \<open>The triple \<open>(net.Conn, *bufio.ReadWriter, error)\<close> that \<open>Hijack\<close> returns.\<close>

type_synonym hijacked = "conn option \<times> bufrw option \<times> error option"

text \<open>
  What the middleware reads from a \<open>*http.Request\<close>: the verb, the result of
  \<open>r.URL.RequestURI()\<close>, and the path template of the route that the router stored in the
  request's context (\<open>mux.CurrentRoute(r)\<close>; \<open>None\<close> when no route matched).
\<close>

record request =
  Method :: string
  RequestURI :: string
  CurrentRoute :: "string option"

section \<open>Collectors of the metrics registry\<close>

text \<open>
  The registry is an external collaborator. A collector is known by its fully qualified name,
  and the state of the registry is the sequence of calls made on its collectors, in order:
  \<open>WithLabelValues(lvs...).Inc()\<close>, \<open>.Dec()\<close> and \<open>.Observe(v)\<close>. The value of a gauge child
  and the observations of a histogram child are read off that sequence. An observed value is
  kept as the integer the program converts to \<open>float64\<close>: nanoseconds for a duration, bytes
  for a size.
\<close>

record GaugeVec =
  gv_fqName :: string
  gv_help :: string
  gv_labelNames :: "string list"

record HistogramVec =
  hv_fqName :: string
  hv_help :: string
  hv_buckets :: "real list"
  hv_labelNames :: "string list"

datatype metric_call =
    Inc string "string list"
  | Dec string "string list"
  | Observe string "string list" int

fun gauge_delta :: "string \<Rightarrow> string list \<Rightarrow> metric_call \<Rightarrow> int" where
  "gauge_delta g lvs (Inc g' lvs') = (if g' = g \<and> lvs' = lvs then 1 else 0)"
| "gauge_delta g lvs (Dec g' lvs') = (if g' = g \<and> lvs' = lvs then - 1 else 0)"
| "gauge_delta g lvs (Observe h lvs' v) = 0"

definition gauge_value :: "metric_call list \<Rightarrow> string \<Rightarrow> string list \<Rightarrow> int" where
  "gauge_value calls g lvs = sum_list (map (gauge_delta g lvs) calls)"

fun observation :: "string \<Rightarrow> metric_call \<Rightarrow> (string list \<times> int) list" where
  "observation h (Observe h' lvs v) = (if h' = h then [(lvs, v)] else [])"
| "observation h (Inc g lvs) = []"
| "observation h (Dec g lvs) = []"

definition observations :: "metric_call list \<Rightarrow> string \<Rightarrow> (string list \<times> int) list" where
  "observations calls h = concat (map (observation h) calls)"

section \<open>Handlers as programs over their environment\<close>

text \<open>
  A handler is Go code that can only act on the \<open>http.ResponseWriter\<close> it is given, on the
  clock and on the collectors. It is modelled by the tree of the calls it makes, each call
  followed by what the handler does with the call's result:
  \<^item> \<open>WriteHeader status\<close>, \<open>Write b\<close> are the methods of \<open>http.ResponseWriter\<close>;
  \<^item> \<open>Hijacker\<close> is the type assertion \<open>w.(http.Hijacker)\<close> in its two-valued form,
    \<open>Hijack\<close> the call of the asserted method;
  \<^item> \<open>Now\<close> reads the clock (\<open>time.Now()\<close>, in nanoseconds);
  \<^item> \<open>Metric\<close> is a call on a collector;
  \<^item> \<open>Panic\<close> unwinds the stack; \<open>Return\<close> ends the program with a value.
  A program is a well-founded tree, so every handler modelled here finishes: it returns or
  it panics. \<open>Header()\<close>, which the observer inherits unchanged from the embedded writer and
  which does not touch the observer, is left out. One request is served at a time; what
  concurrent requests do to the collectors is the registry's business.
\<close>

datatype 'a prog =
    Return 'a
  | Panic string
  | WriteHeader goint "'a prog"
  | Write "byte list" "goint \<times> error option \<Rightarrow> 'a prog"
  | Hijacker "bool \<Rightarrow> 'a prog"
  | Hijack "hijacked \<Rightarrow> 'a prog"
  | Now "int \<Rightarrow> 'a prog"
  | Metric metric_call "'a prog"

type_synonym handler = "request \<Rightarrow> unit prog"

primrec bind :: "'a prog \<Rightarrow> ('a \<Rightarrow> 'b prog) \<Rightarrow> 'b prog" where
  "bind (Return a) f = f a"
| "bind (Panic v) f = Panic v"
| "bind (WriteHeader status p) f = WriteHeader status (bind p f)"
| "bind (Write b k) f = Write b (\<lambda>res. bind (k res) f)"
| "bind (Hijacker k) f = Hijacker (\<lambda>ok. bind (k ok) f)"
| "bind (Hijack k) f = Hijack (\<lambda>res. bind (k res) f)"
| "bind (Now k) f = Now (\<lambda>t. bind (k t) f)"
| "bind (Metric c p) f = Metric c (bind p f)"

text \<open>
  The environment of the outermost handler: the response sink that the HTTP server hands
  over, given by its methods on a state \<open>'s\<close> (\<open>rw_Hijack\<close> is \<open>None\<close> when the sink's
  dynamic type does not implement \<open>http.Hijacker\<close>), the clock as the sequence of its
  readings, and the calls made so far on the collectors.
\<close>

record 's ResponseWriter =
  rw_WriteHeader :: "goint \<Rightarrow> 's \<Rightarrow> 's"
  rw_Write :: "byte list \<Rightarrow> 's \<Rightarrow> (goint \<times> error option) \<times> 's"
  rw_Hijack :: "('s \<Rightarrow> hijacked \<times> 's) option"

record 's world =
  sink :: 's
  clock :: "nat \<Rightarrow> int"
  ticks :: nat
  metrics :: "metric_call list"

datatype 'a outcome = Returned 'a | Panicking string

primrec run :: "'s ResponseWriter \<Rightarrow> 'a prog \<Rightarrow> 's world \<Rightarrow> 'a outcome \<times> 's world" where
  "run rw (Return a) \<sigma> = (Returned a, \<sigma>)"
| "run rw (Panic v) \<sigma> = (Panicking v, \<sigma>)"
| "run rw (WriteHeader status p) \<sigma> =
     run rw p (\<sigma>\<lparr>sink := rw_WriteHeader rw status (sink \<sigma>)\<rparr>)"
| "run rw (Write b k) \<sigma> =
     (let (res, s) = rw_Write rw b (sink \<sigma>) in run rw (k res) (\<sigma>\<lparr>sink := s\<rparr>))"
| "run rw (Hijacker k) \<sigma> = run rw (k (rw_Hijack rw \<noteq> None)) \<sigma>"
| "run rw (Hijack k) \<sigma> =
     (case rw_Hijack rw of
        None \<Rightarrow> (Panicking ''interface conversion: not an http.Hijacker'', \<sigma>)
      | Some hijack \<Rightarrow>
          (let (res, s) = hijack (sink \<sigma>) in run rw (k res) (\<sigma>\<lparr>sink := s\<rparr>)))"
| "run rw (Now k) \<sigma> = run rw (k (clock \<sigma> (ticks \<sigma>))) (\<sigma>\<lparr>ticks := Suc (ticks \<sigma>)\<rparr>)"
| "run rw (Metric c p) \<sigma> = run rw p (\<sigma>\<lparr>metrics := metrics \<sigma> @ [c]\<rparr>)"

section \<open>The response observer: \<open>statusWriter\<close>\<close>

text \<open>
  The embedded \<open>http.ResponseWriter\<close> of a \<open>statusWriter\<close> is the writer of the enclosing
  program. Each method is a program over that writer and returns its result together with
  the updated receiver. The field \<open>length\<close> is \<open>length_sw\<close> here.
\<close>

record statusWriter =
  status :: goint
  length_sw :: goint

definition sw_WriteHeader :: "statusWriter \<Rightarrow> goint \<Rightarrow> statusWriter prog" where
  "sw_WriteHeader w st =
     (let w = w\<lparr>status := st\<rparr> in
      WriteHeader st (Return w))"

definition sw_Write ::
  "statusWriter \<Rightarrow> byte list \<Rightarrow> ((goint \<times> error option) \<times> statusWriter) prog" where
  "sw_Write w b =
     (let w = (if status w = 0 then w\<lparr>status := 200\<rparr> else w) in
      Write b (\<lambda>(n, err).
      let w = w\<lparr>length_sw := length_sw w + n\<rparr> in
      Return ((n, err), w)))"

definition sw_Hijack :: "statusWriter \<Rightarrow> (hijacked \<times> statusWriter) prog" where
  "sw_Hijack w =
     Hijacker (\<lambda>ok.
       if \<not> ok then
         Return ((None, None, Some (Errorf ''not supported by the underlying writer'')), w)
       else Hijack (\<lambda>res. Return (res, w)))"

text \<open>
  \<open>next.ServeHTTP(&sw, r)\<close>: the program of \<open>next\<close> with every call on its response writer
  dispatched to the methods of \<open>sw\<close>. A \<open>*statusWriter\<close> has a \<open>Hijack\<close> method, so the
  assertion \<open>w.(http.Hijacker)\<close> succeeds on it. The result carries the final \<open>sw\<close>.
\<close>

primrec ServeHTTP_sw :: "'a prog \<Rightarrow> statusWriter \<Rightarrow> ('a \<times> statusWriter) prog" where
  "ServeHTTP_sw (Return a) w = Return (a, w)"
| "ServeHTTP_sw (Panic v) w = Panic v"
| "ServeHTTP_sw (WriteHeader st p) w =
     bind (sw_WriteHeader w st) (\<lambda>w'. ServeHTTP_sw p w')"
| "ServeHTTP_sw (Write b k) w =
     bind (sw_Write w b) (\<lambda>(res, w'). ServeHTTP_sw (k res) w')"
| "ServeHTTP_sw (Hijacker k) w = ServeHTTP_sw (k True) w"
| "ServeHTTP_sw (Hijack k) w =
     bind (sw_Hijack w) (\<lambda>(res, w'). ServeHTTP_sw (k res) w')"
| "ServeHTTP_sw (Now k) w = Now (\<lambda>t. ServeHTTP_sw (k t) w)"
| "ServeHTTP_sw (Metric c p) w = Metric c (ServeHTTP_sw p w)"

section \<open>Formatting a status: \<open>fmt.Sprintf("%d", n)\<close>\<close>

function digits10 :: "nat \<Rightarrow> string" where
  "digits10 n =
     (if n < 10 then [char_of (48 + n)]
      else digits10 (n div 10) @ [char_of (48 + n mod 10)])"
  by pat_completeness auto
termination
  by (relation "measure id") auto

declare digits10.simps [simp del]

definition Sprintf_d :: "goint \<Rightarrow> string" where
  "Sprintf_d n =
     (if sint n < 0 then CHR ''-'' # digits10 (nat (- sint n)) else digits10 (nat (sint n)))"

section \<open>The router, as far as the program touches it\<close>

text \<open>
  Of a \<open>*mux.Router\<close> the program uses route registration, \<open>Use\<close> and the two fallback
  handler fields; \<open>nil\<close> handlers are \<open>None\<close>. Matching and dispatch belong to the router.
\<close>

record route =
  route_name :: string
  route_methods :: "string list"
  route_path :: string
  route_handler :: handler

record Router =
  routes :: "route list"
  middlewares :: "(handler \<Rightarrow> handler) list"
  NotFoundHandler :: "handler option"
  MethodNotAllowedHandler :: "handler option"

section \<open>\<open>MuxProm\<close>\<close>

text \<open>
  The three collector fields hold the descriptions the collectors are created with; their
  state is in the registry. Bucket bounds are \<open>float64\<close> constants, kept as the reals they
  denote; nothing is computed with them.
\<close>

record MuxProm =
  reqInFlight :: GaugeVec
  reqDurationHistogram :: HistogramVec
  reqRespSizeHistogram :: HistogramVec
  Router :: "Router option"
  Namespace :: string
  MetricsPath :: string
  MetricsRouteName :: string
  DurationBucket :: "real list"
  RespSizeBucket :: "real list"

definition defaultMetricsPath :: string where
  "defaultMetricsPath = ''/metrics''"

definition defaultMetricsRouteName :: string where
  "defaultMetricsRouteName = ''metrics''"

definition defaultNamespace :: string where
  "defaultNamespace = ''muxprom''"

definition defaultDurationBucket :: "real list" where
  "defaultDurationBucket =
     [0.0001, 0.0005, 0.001, 0.005, 0.01, 0.025, 0.05, 0.1, 0.25, 0.5, 1, 2.5, 5, 10]"

text \<open>The constants of package \<open>bytefmt\<close>: \<open>KILOBYTE = 1 << 10\<close>, \<open>MEGABYTE = 1 << 20\<close>.\<close>

definition KILOBYTE :: real where
  "KILOBYTE = 1024"

definition MEGABYTE :: real where
  "MEGABYTE = 1048576"

definition defaultRespSizeBucket :: "real list" where
  "defaultRespSizeBucket =
     [0, 512, KILOBYTE, 100 * KILOBYTE, 512 * KILOBYTE, MEGABYTE, 5 * MEGABYTE,
      10 * MEGABYTE, 25 * MEGABYTE, 50 * MEGABYTE, 100 * MEGABYTE, 500 * MEGABYTE]"

subsection \<open>Options\<close>

text \<open>
  In the program an option carries the name of the field it sets; here it has the suffix
  \<open>_option\<close>, the name itself being the field's selector.
\<close>

definition Namespace_option :: "string \<Rightarrow> MuxProm \<Rightarrow> MuxProm" where
  "Namespace_option ns prom = prom\<lparr>Namespace := ns\<rparr>"

definition MetricsPath_option :: "string \<Rightarrow> MuxProm \<Rightarrow> MuxProm" where
  "MetricsPath_option p prom = prom\<lparr>MetricsPath := p\<rparr>"

definition MetricsRouteName_option :: "string \<Rightarrow> MuxProm \<Rightarrow> MuxProm" where
  "MetricsRouteName_option rn prom = prom\<lparr>MetricsRouteName := rn\<rparr>"

definition DurationBucket_option :: "real list \<Rightarrow> MuxProm \<Rightarrow> MuxProm" where
  "DurationBucket_option db prom = prom\<lparr>DurationBucket := db\<rparr>"

definition RespSizeBucket_option :: "real list \<Rightarrow> MuxProm \<Rightarrow> MuxProm" where
  "RespSizeBucket_option rsb prom = prom\<lparr>RespSizeBucket := rsb\<rparr>"

definition Router_option :: "Router option \<Rightarrow> MuxProm \<Rightarrow> MuxProm" where
  "Router_option r prom = prom\<lparr>Router := r\<rparr>"

subsection \<open>\<open>init\<close>: creating and registering the collectors\<close>

text \<open>
  \<open>prometheus.BuildFQName\<close> with an empty subsystem. Of the default registry only the
  names registered so far are kept, and \<open>MustRegister\<close> panics on a name that is taken.
\<close>

definition BuildFQName :: "string \<Rightarrow> string \<Rightarrow> string" where
  "BuildFQName ns name = (if ns = [] then name else ns @ ''_'' @ name)"

definition MustRegister :: "string \<Rightarrow> string list \<Rightarrow> string + string list" where
  "MustRegister fqName registry =
     (if fqName \<in> set registry then Inl ''duplicate metrics collector registration attempted''
      else Inr (registry @ [fqName]))"

definition init :: "MuxProm \<Rightarrow> string list \<Rightarrow> string + MuxProm \<times> string list" where
  "init prom registry =
     (let prom = prom\<lparr>reqInFlight :=
            \<lparr>gv_fqName = BuildFQName (Namespace prom) ''http_requests_inflight'',
             gv_help = ''HTTP requests in-flight'',
             gv_labelNames = [''route'', ''method'']\<rparr>\<rparr> in
      case MustRegister (gv_fqName (reqInFlight prom)) registry of
        Inl v \<Rightarrow> Inl v
      | Inr registry \<Rightarrow>
     (let prom = prom\<lparr>reqDurationHistogram :=
            \<lparr>hv_fqName = BuildFQName (Namespace prom) ''http_request_duration_seconds'',
             hv_help = ''HTTP request duration seconds'',
             hv_buckets = DurationBucket prom,
             hv_labelNames = [''route'', ''method'', ''http_status'']\<rparr>\<rparr> in
      case MustRegister (hv_fqName (reqDurationHistogram prom)) registry of
        Inl v \<Rightarrow> Inl v
      | Inr registry \<Rightarrow>
     (let prom = prom\<lparr>reqRespSizeHistogram :=
            \<lparr>hv_fqName = BuildFQName (Namespace prom) ''http_response_size'',
             hv_help = ''HTTP response size in bytes'',
             hv_buckets = RespSizeBucket prom,
             hv_labelNames = [''route'', ''method'', ''http_status'']\<rparr>\<rparr> in
      case MustRegister (hv_fqName (reqRespSizeHistogram prom)) registry of
        Inl v \<Rightarrow> Inl v
      | Inr registry \<Rightarrow> Inr (prom, registry))))"

subsection \<open>\<open>New\<close>\<close>

text \<open>
  \<open>New\<close> ends in one of three ways: it returns the instance, it panics (in \<open>MustRegister\<close>),
  or \<open>log.Fatal\<close> prints its message and exits the process. The handler of the scrape route,
  \<open>promhttp.Handler()\<close>, is a parameter. The router lives behind a pointer in the program;
  here its state is carried in the \<open>Router\<close> field. \<open>New_literal\<close> is the composite literal
  \<open>&MuxProm{...}\<close> that \<open>New\<close> starts from: the defaults, no router, zero-valued collectors.
\<close>

datatype 'a exit = Done 'a | Panicked string | Fatal string

definition New_literal :: MuxProm where
  "New_literal =
     \<lparr>reqInFlight = \<lparr>gv_fqName = [], gv_help = [], gv_labelNames = []\<rparr>,
      reqDurationHistogram =
        \<lparr>hv_fqName = [], hv_help = [], hv_buckets = [], hv_labelNames = []\<rparr>,
      reqRespSizeHistogram =
        \<lparr>hv_fqName = [], hv_help = [], hv_buckets = [], hv_labelNames = []\<rparr>,
      Router = None,
      Namespace = defaultNamespace,
      MetricsPath = defaultMetricsPath,
      MetricsRouteName = defaultMetricsRouteName,
      DurationBucket = defaultDurationBucket,
      RespSizeBucket = defaultRespSizeBucket\<rparr>"

definition New ::
  "handler \<Rightarrow> (MuxProm \<Rightarrow> MuxProm) list \<Rightarrow> string list \<Rightarrow> (MuxProm \<times> string list) exit" where
  "New promhttp_Handler options registry =
     (let p = New_literal;
          p = foldl (\<lambda>p option. option p) p options in
      case init p registry of
        Inl v \<Rightarrow> Panicked v
      | Inr (p, registry) \<Rightarrow>
          (case Router p of
             Some rt \<Rightarrow>
               Done (p\<lparr>Router := Some (rt\<lparr>routes := routes rt @
                         [\<lparr>route_name = MetricsRouteName p,
                           route_methods = [''GET''],
                           route_path = MetricsPath p,
                           route_handler = promhttp_Handler\<rparr>]\<rparr>)\<rparr>, registry)
           | None \<Rightarrow> Fatal ''You need to set Router''))"

subsection \<open>\<open>middleware\<close>\<close>

definition middleware :: "MuxProm \<Rightarrow> handler \<Rightarrow> handler" where
  "middleware prom next r =
     (let routeName = RequestURI r in
      Metric (Inc (gv_fqName (reqInFlight prom)) [routeName, Method r])
      (Now (\<lambda>start.
       bind (ServeHTTP_sw (next r) \<lparr>status = 0, length_sw = 0\<rparr>) (\<lambda>(u, sw).
       Now (\<lambda>finish.
       let duration = finish - start in
       Metric (Observe (hv_fqName (reqDurationHistogram prom))
                 [routeName, Method r, Sprintf_d (status sw)] duration)
      (Metric (Observe (hv_fqName (reqRespSizeHistogram prom))
                 [routeName, Method r, Sprintf_d (status sw)] (sint (length_sw sw)))
      (Metric (Dec (gv_fqName (reqInFlight prom)) [routeName, Method r])
      (Return ()))))))))"

subsection \<open>\<open>Instrument\<close> and the fallback handlers\<close>

text \<open>
  \<open>http.NotFoundHandler()\<close> replies with \<open>http.Error(w, "404 page not found", 404)\<close>: the
  status, then the message and a newline.
\<close>

definition http_NotFoundHandler :: handler where
  "http_NotFoundHandler r =
     WriteHeader 404 (Write (''404 page not found'' @ [CHR 0x0A]) (\<lambda>res. Return ()))"

definition WrapNotFoundHandler :: "handler option \<Rightarrow> (handler \<Rightarrow> handler) \<Rightarrow> handler" where
  "WrapNotFoundHandler h m =
     (let h = (case h of None \<Rightarrow> http_NotFoundHandler | Some h \<Rightarrow> h) in m h)"

definition WrapMethodNotAllowedHandler ::
  "handler option \<Rightarrow> (handler \<Rightarrow> handler) \<Rightarrow> handler" where
  "WrapMethodNotAllowedHandler h m =
     (let h = (case h of None \<Rightarrow> (\<lambda>req. WriteHeader 405 (Return ())) | Some h \<Rightarrow> h) in m h)"

text \<open>On a \<open>nil\<close> router the first statement dereferences it and panics.\<close>

definition Instrument :: "MuxProm \<Rightarrow> string + MuxProm" where
  "Instrument prom =
     (case Router prom of
        None \<Rightarrow> Inl ''invalid memory address or nil pointer dereference''
      | Some rt \<Rightarrow>
          (let rt = rt\<lparr>middlewares := middlewares rt @ [middleware prom]\<rparr>;
               rt = rt\<lparr>NotFoundHandler :=
                      Some (WrapNotFoundHandler (NotFoundHandler rt) (middleware prom))\<rparr>;
               rt = rt\<lparr>MethodNotAllowedHandler :=
                      Some (WrapMethodNotAllowedHandler (MethodNotAllowedHandler rt)
                              (middleware prom))\<rparr>
           in Inr (prom\<lparr>Router := Some rt\<rparr>)))"

section \<open>Reading programs and their effects\<close>

text \<open>
  The kinds of call that occur anywhere in a program, on any of its paths. A handler that
  never sets a status is one without \<open>WriteHeaderCall\<close>; an application handler that leaves
  the collectors alone is one without \<open>MetricCall\<close>.
\<close>

datatype call = PanicCall | WriteHeaderCall | WriteCall | HijackCall | NowCall | MetricCall

primrec calls_of :: "'a prog \<Rightarrow> call set" where
  "calls_of (Return a) = {}"
| "calls_of (Panic v) = {PanicCall}"
| "calls_of (WriteHeader st p) = insert WriteHeaderCall (calls_of p)"
| "calls_of (Write b k) = insert WriteCall (\<Union>res. calls_of (k res))"
| "calls_of (Hijacker k) = (\<Union>ok. calls_of (k ok))"
| "calls_of (Hijack k) = insert HijackCall (\<Union>res. calls_of (k res))"
| "calls_of (Now k) = insert NowCall (\<Union>t. calls_of (k t))"
| "calls_of (Metric c p) = insert MetricCall (calls_of p)"

text \<open>Whether every path of a program on which it returns passes through a \<open>Write\<close>.\<close>

primrec writes_body :: "'a prog \<Rightarrow> bool" where
  "writes_body (Return a) = False"
| "writes_body (Panic v) = True"
| "writes_body (WriteHeader st p) = writes_body p"
| "writes_body (Write b k) = True"
| "writes_body (Hijacker k) = (\<forall>ok. writes_body (k ok))"
| "writes_body (Hijack k) = (\<forall>res. writes_body (k res))"
| "writes_body (Now k) = (\<forall>t. writes_body (k t))"
| "writes_body (Metric c p) = writes_body p"

text \<open>A handler that writes the given byte slices one after the other and collects the results.\<close>

primrec write_all :: "byte list list \<Rightarrow> (goint \<times> error option) list prog" where
  "write_all [] = Return []"
| "write_all (b # bs) = Write b (\<lambda>res. bind (write_all bs) (\<lambda>rs. Return (res # rs)))"

section \<open>A connection to run examples on\<close>

text \<open>
  A response sink that records the statuses and bytes it receives and accepts \<open>room\<close> more
  bytes: a write that does not fit is cut short and fails. \<open>conn_rw\<close> cannot be hijacked,
  \<open>hijackable_rw\<close> can.
\<close>

record conn_state =
  headers :: "goint list"
  body :: "byte list"
  room :: nat

definition conn_rw :: "conn_state ResponseWriter" where
  "conn_rw =
     \<lparr>rw_WriteHeader = (\<lambda>st s. s\<lparr>headers := headers s @ [st]\<rparr>),
      rw_Write = (\<lambda>b s.
        if length b \<le> room s
        then ((word_of_nat (length b), None),
              s\<lparr>body := body s @ b, room := room s - length b\<rparr>)
        else ((word_of_nat (room s), Some (Errorf ''short write'')),
              s\<lparr>body := body s @ take (room s) b, room := 0\<rparr>)),
      rw_Hijack = None\<rparr>"

definition hijackable_rw :: "conn_state ResponseWriter" where
  "hijackable_rw =
     conn_rw\<lparr>rw_Hijack := Some (\<lambda>s. ((Some (Conn 1), Some (ReadWriter 1), None), s))\<rparr>"

definition world0 :: "conn_state world" where
  "world0 =
     \<lparr>sink = \<lparr>headers = [], body = [], room = 64\<rparr>,
      clock = (\<lambda>n. 1000 * int n), ticks = 0, metrics = []\<rparr>"

definition router0 :: Router where
  "router0 =
     \<lparr>routes = [], middlewares = [], NotFoundHandler = None, MethodNotAllowedHandler = None\<rparr>"

definition prom0 :: MuxProm where
  "prom0 =
     \<lparr>reqInFlight =
        \<lparr>gv_fqName = ''muxprom_http_requests_inflight'',
         gv_help = ''HTTP requests in-flight'',
         gv_labelNames = [''route'', ''method'']\<rparr>,
      reqDurationHistogram =
        \<lparr>hv_fqName = ''muxprom_http_request_duration_seconds'',
         hv_help = ''HTTP request duration seconds'',
         hv_buckets = defaultDurationBucket,
         hv_labelNames = [''route'', ''method'', ''http_status'']\<rparr>,
      reqRespSizeHistogram =
        \<lparr>hv_fqName = ''muxprom_http_response_size'',
         hv_help = ''HTTP response size in bytes'',
         hv_buckets = defaultRespSizeBucket,
         hv_labelNames = [''route'', ''method'', ''http_status'']\<rparr>,
      Router = Some router0,
      Namespace = defaultNamespace,
      MetricsPath = defaultMetricsPath,
      MetricsRouteName = defaultMetricsRouteName,
      DurationBucket = defaultDurationBucket,
      RespSizeBucket = defaultRespSizeBucket\<rparr>"

definition req0 :: request where
  "req0 = \<lparr>Method = ''GET'', RequestURI = ''/users/42'', CurrentRoute = Some ''/users/{id}''\<rparr>"

section \<open>How programs run\<close>

lemma Sprintf_d_0: "Sprintf_d 0 = ''0''"
  by code_simp

lemma Sprintf_d_200: "Sprintf_d 200 = ''200''"
  by code_simp

lemma Sprintf_d_404: "Sprintf_d 404 = ''404''"
  by code_simp

lemma Sprintf_d_405: "Sprintf_d 405 = ''405''"
  by code_simp

lemma Sprintf_d_500: "Sprintf_d 500 = ''500''"
  by code_simp

lemma run_bind:
  "run rw (bind m f) \<sigma> =
     (case run rw m \<sigma> of
        (Returned a, \<sigma>') \<Rightarrow> run rw (f a) \<sigma>'
      | (Panicking v, \<sigma>') \<Rightarrow> (Panicking v, \<sigma>'))"
  by (induction m arbitrary: \<sigma>) (auto split: prod.splits option.splits)

text \<open>One request through the middleware, read off its program.\<close>

lemma run_middleware:
  "run rw (middleware prom next r) \<sigma> =
     (case run rw (ServeHTTP_sw (next r) \<lparr>status = 0, length_sw = 0\<rparr>)
             (\<sigma>\<lparr>metrics := metrics \<sigma> @
                   [Inc (gv_fqName (reqInFlight prom)) [RequestURI r, Method r]],
                ticks := Suc (ticks \<sigma>)\<rparr>) of
        (Panicking v, \<sigma>') \<Rightarrow> (Panicking v, \<sigma>')
      | (Returned (u, sw), \<sigma>') \<Rightarrow>
          (Returned (),
           \<sigma>'\<lparr>ticks := Suc (ticks \<sigma>'),
              metrics := metrics \<sigma>' @
                [Observe (hv_fqName (reqDurationHistogram prom))
                   [RequestURI r, Method r, Sprintf_d (status sw)]
                   (clock \<sigma>' (ticks \<sigma>') - clock \<sigma> (ticks \<sigma>)),
                 Observe (hv_fqName (reqRespSizeHistogram prom))
                   [RequestURI r, Method r, Sprintf_d (status sw)] (sint (length_sw sw)),
                 Dec (gv_fqName (reqInFlight prom)) [RequestURI r, Method r]]\<rparr>))"
  by (simp add: middleware_def run_bind Let_def split: prod.splits outcome.splits)

lemma bind_assoc: "bind (bind m f) g = bind m (\<lambda>a. bind (f a) g)"
  by (induction m) auto

lemma run_sw_WriteHeader:
  "run rw (sw_WriteHeader w st) \<sigma> =
     (Returned (w\<lparr>status := st\<rparr>), \<sigma>\<lparr>sink := rw_WriteHeader rw st (sink \<sigma>)\<rparr>)"
  by (simp add: sw_WriteHeader_def)

lemma run_sw_Write:
  "run rw (sw_Write w b) \<sigma> =
     (Returned (fst (rw_Write rw b (sink \<sigma>)),
        w\<lparr>status := (if status w = 0 then 200 else status w),
          length_sw := length_sw w + fst (fst (rw_Write rw b (sink \<sigma>)))\<rparr>),
      \<sigma>\<lparr>sink := snd (rw_Write rw b (sink \<sigma>))\<rparr>)"
  by (simp add: sw_Write_def Let_def split: prod.splits)

lemma run_sw_Hijack:
  "run rw (sw_Hijack w) \<sigma> =
     (case rw_Hijack rw of
        None \<Rightarrow>
          (Returned ((None, None, Some (Errorf ''not supported by the underlying writer'')), w),
           \<sigma>)
      | Some hijack \<Rightarrow>
          (Returned (fst (hijack (sink \<sigma>)), w), \<sigma>\<lparr>sink := snd (hijack (sink \<sigma>))\<rparr>))"
  by (simp add: sw_Hijack_def split: prod.splits option.splits)

text \<open>Serving a sequence of two programs through the observer is serving one after the other.\<close>

lemma ServeHTTP_sw_bind:
  "ServeHTTP_sw (bind p f) w = bind (ServeHTTP_sw p w) (\<lambda>(a, w'). ServeHTTP_sw (f a) w')"
  by (induction p arbitrary: w)
     (auto simp: bind_assoc sw_WriteHeader_def sw_Write_def sw_Hijack_def Let_def
           split: prod.splits)

lemma prog_induct [case_names Return Panic WriteHeader Write Hijacker Hijack Now Metric]:
  assumes "\<And>a. P (Return a)"
    and "\<And>v. P (Panic v)"
    and "\<And>st p. P p \<Longrightarrow> P (WriteHeader st p)"
    and "\<And>b k. (\<And>n err. P (k (n, err))) \<Longrightarrow> P (Write b k)"
    and "\<And>k. (\<And>ok. P (k ok)) \<Longrightarrow> P (Hijacker k)"
    and "\<And>k. (\<And>res. P (k res)) \<Longrightarrow> P (Hijack k)"
    and "\<And>k. (\<And>t. P (k t)) \<Longrightarrow> P (Now k)"
    and "\<And>c p. P p \<Longrightarrow> P (Metric c p)"
  shows "P p"
  by (induction p) (auto intro: assms)

lemma sw_metrics:
  "MetricCall \<notin> calls_of p \<Longrightarrow> run rw (ServeHTTP_sw p w) \<sigma> = (out, \<sigma>') \<Longrightarrow>
   metrics \<sigma>' = metrics \<sigma>"
  by (induction p arbitrary: w \<sigma> rule: prog_induct)
     (auto simp: run_bind sw_WriteHeader_def sw_Write_def sw_Hijack_def Let_def
           split: prod.splits option.splits if_splits)

lemma sw_untouched:
  "WriteHeaderCall \<notin> calls_of p \<Longrightarrow> WriteCall \<notin> calls_of p \<Longrightarrow>
   run rw (ServeHTTP_sw p w) \<sigma> = (Returned (u, w'), \<sigma>') \<Longrightarrow> w' = w"
  by (induction p arbitrary: w \<sigma> rule: prog_induct)
     (auto simp: run_bind sw_Hijack_def split: prod.splits option.splits if_splits)

lemma sw_Hijack_returns: "\<exists>res \<sigma>'. run rw (sw_Hijack w) \<sigma> = (Returned (res, w), \<sigma>')"
  by (cases "rw_Hijack rw") (simp_all add: run_sw_Hijack del: split_paired_Ex)

lemma sw_status_200:
  "WriteHeaderCall \<notin> calls_of p \<Longrightarrow>
   status w = 200 \<or> status w = 0 \<and> writes_body p \<Longrightarrow>
   run rw (ServeHTTP_sw p w) \<sigma> = (Returned (u, w'), \<sigma>') \<Longrightarrow> status w' = 200"
proof (induction p arbitrary: w \<sigma> rule: prog_induct)
  case (Write b k)
  obtain n err s where r: "rw_Write rw b (sink \<sigma>) = ((n, err), s)"
    by (metis prod.exhaust)
  let ?w = "(if status w = 0 then w\<lparr>status := 200\<rparr> else w)\<lparr>length_sw :=
              length_sw (if status w = 0 then w\<lparr>status := 200\<rparr> else w) + n\<rparr>"
  have "run rw (ServeHTTP_sw (k (n, err)) ?w) (\<sigma>\<lparr>sink := s\<rparr>) = (Returned (u, w'), \<sigma>')"
    using Write.prems(3) r by (simp add: run_bind sw_Write_def Let_def)
  moreover have "status ?w = 200"
    using Write.prems(2) by auto
  moreover have "WriteHeaderCall \<notin> calls_of (k (n, err))"
    using Write.prems(1) by simp
  ultimately show ?case
    using Write.IH by blast
next
  case (Hijack k)
  obtain res \<sigma>1 where r: "run rw (sw_Hijack w) \<sigma> = (Returned (res, w), \<sigma>1)"
    using sw_Hijack_returns by blast
  then have "run rw (ServeHTTP_sw (k res) w) \<sigma>1 = (Returned (u, w'), \<sigma>')"
    using Hijack.prems(3) by (simp add: run_bind)
  moreover have "WriteHeaderCall \<notin> calls_of (k res)"
    using Hijack.prems(1) by (cases res) auto
  moreover have "status w = 200 \<or> status w = 0 \<and> writes_body (k res)"
    using Hijack.prems(2) by (cases res) auto
  ultimately show ?case
    using Hijack.IH by blast
next
  case (Hijacker k)
  then show ?case
    by fastforce
next
  case (Now k)
  then show ?case
    by fastforce
qed auto

lemma sw_returns:
  "PanicCall \<notin> calls_of p \<Longrightarrow> \<exists>a \<sigma>'. run rw (ServeHTTP_sw p w) \<sigma> = (Returned a, \<sigma>')"
  by (induction p arbitrary: w \<sigma> rule: prog_induct)
     (auto simp: run_bind sw_WriteHeader_def sw_Write_def sw_Hijack_def Let_def
           split: prod.splits option.splits if_splits)

lemma run_write_all:
  "\<exists>rs \<sigma>'. run rw (write_all bs) \<sigma> = (Returned rs, \<sigma>') \<and> length rs = length bs"
proof (induction bs arbitrary: \<sigma>)
  case Nil
  show ?case by simp
next
  case (Cons b bs)
  obtain res s where w: "rw_Write rw b (sink \<sigma>) = (res, s)"
    by (cases "rw_Write rw b (sink \<sigma>)")
  from Cons [of "\<sigma>\<lparr>sink := s\<rparr>"] obtain rs \<sigma>'
    where "run rw (write_all bs) (\<sigma>\<lparr>sink := s\<rparr>) = (Returned rs, \<sigma>')" "length rs = length bs"
    by blast
  then show ?case
    by (simp add: w run_bind)
qed

lemma run_write_all_sw:
  "run rw (ServeHTTP_sw (write_all bs) w) \<sigma> =
     (case run rw (write_all bs) \<sigma> of
        (Returned rs, \<sigma>') \<Rightarrow>
          (Returned (rs, w\<lparr>status := (if status w = 0 \<and> bs \<noteq> [] then 200 else status w),
                           length_sw := length_sw w + sum_list (map fst rs)\<rparr>), \<sigma>')
      | (Panicking v, \<sigma>') \<Rightarrow> (Panicking v, \<sigma>'))"
proof (induction bs arbitrary: w \<sigma>)
  case Nil
  show ?case by simp
next
  case (Cons b bs)
  show ?case
    by (auto simp add: run_bind run_sw_Write ServeHTTP_sw_bind Cons add.assoc
             split: prod.splits outcome.splits)
qed

lemma init_Router: "init p registry = Inr (p', registry') \<Longrightarrow> Router p' = Router p"
  by (auto simp: init_def Let_def split: sum.splits)

lemma init_fresh: "\<exists>p' registry'. init p [] = Inr (p', registry')"
  by (simp add: init_def Let_def MustRegister_def BuildFQName_def)

text \<open>The instance \<open>prom0\<close> of the examples is what \<open>New\<close> builds on an empty router.\<close>

lemma New_with_router:
  "New h [Router_option (Some router0)] [] =
     Done (prom0\<lparr>Router := Some (router0\<lparr>routes :=
              [\<lparr>route_name = ''metrics'', route_methods = [''GET''], route_path = ''/metrics'',
                route_handler = h\<rparr>]\<rparr>)\<rparr>,
           [''muxprom_http_requests_inflight'', ''muxprom_http_request_duration_seconds'',
            ''muxprom_http_response_size''])"
  by (simp add: New_def New_literal_def Router_option_def init_def MustRegister_def
        BuildFQName_def Let_def prom0_def router0_def defaultNamespace_def
        defaultMetricsPath_def defaultMetricsRouteName_def)

lemma run_metrics_grow:
  "run rw p \<sigma> = (out, \<sigma>') \<Longrightarrow> \<exists>mid. metrics \<sigma>' = metrics \<sigma> @ mid"
proof (induction p arbitrary: \<sigma> rule: prog_induct)
  case (Metric c p)
  then obtain mid where "metrics \<sigma>' = (metrics \<sigma> @ [c]) @ mid"
    by fastforce
  then show ?case
    by simp
next
  case (Write b k)
  then show ?case
    by (fastforce split: prod.splits)
next
  case (Hijack k)
  then show ?case
    by (cases "rw_Hijack rw") (fastforce split: prod.splits)+
qed fastforce+

text \<open>
  What a request leaves behind, given how serving the wrapped handler through the observer
  went: the handler's outcome decides the middleware's, and the two observations and the
  decrement are made only when the handler has returned.
\<close>

lemma middleware_served:
  assumes "run rw (ServeHTTP_sw (next r) \<lparr>status = 0, length_sw = 0\<rparr>)
             (\<sigma>\<lparr>metrics := metrics \<sigma> @
                   [Inc (gv_fqName (reqInFlight prom)) [RequestURI r, Method r]],
                ticks := Suc (ticks \<sigma>)\<rparr>) = (out, \<sigma>1)"
  shows "fst (run rw (middleware prom next r) \<sigma>) =
           (case out of Returned (u, sw) \<Rightarrow> Returned () | Panicking v \<Rightarrow> Panicking v)"
    and "metrics (snd (run rw (middleware prom next r) \<sigma>)) =
           metrics \<sigma>1 @
           (case out of
              Returned (u, sw) \<Rightarrow>
                [Observe (hv_fqName (reqDurationHistogram prom))
                   [RequestURI r, Method r, Sprintf_d (status sw)]
                   (clock \<sigma>1 (ticks \<sigma>1) - clock \<sigma> (ticks \<sigma>)),
                 Observe (hv_fqName (reqRespSizeHistogram prom))
                   [RequestURI r, Method r, Sprintf_d (status sw)] (sint (length_sw sw)),
                 Dec (gv_fqName (reqInFlight prom)) [RequestURI r, Method r]]
            | Panicking v \<Rightarrow> [])"
    and "\<exists>mid. metrics \<sigma>1 =
           metrics \<sigma> @ Inc (gv_fqName (reqInFlight prom)) [RequestURI r, Method r] # mid"
    and "MetricCall \<notin> calls_of (next r) \<Longrightarrow>
         metrics \<sigma>1 =
           metrics \<sigma> @ [Inc (gv_fqName (reqInFlight prom)) [RequestURI r, Method r]]"
proof -
  show "fst (run rw (middleware prom next r) \<sigma>) =
           (case out of Returned (u, sw) \<Rightarrow> Returned () | Panicking v \<Rightarrow> Panicking v)"
    using assms by (simp add: run_middleware split: outcome.splits prod.splits)
  show "metrics (snd (run rw (middleware prom next r) \<sigma>)) =
           metrics \<sigma>1 @
           (case out of
              Returned (u, sw) \<Rightarrow>
                [Observe (hv_fqName (reqDurationHistogram prom))
                   [RequestURI r, Method r, Sprintf_d (status sw)]
                   (clock \<sigma>1 (ticks \<sigma>1) - clock \<sigma> (ticks \<sigma>)),
                 Observe (hv_fqName (reqRespSizeHistogram prom))
                   [RequestURI r, Method r, Sprintf_d (status sw)] (sint (length_sw sw)),
                 Dec (gv_fqName (reqInFlight prom)) [RequestURI r, Method r]]
            | Panicking v \<Rightarrow> [])"
    using assms by (simp add: run_middleware split: outcome.splits prod.splits)
  show "\<exists>mid. metrics \<sigma>1 =
           metrics \<sigma> @ Inc (gv_fqName (reqInFlight prom)) [RequestURI r, Method r] # mid"
    using run_metrics_grow [OF assms] by simp
  show "metrics \<sigma>1 =
          metrics \<sigma> @ [Inc (gv_fqName (reqInFlight prom)) [RequestURI r, Method r]]"
    if "MetricCall \<notin> calls_of (next r)"
    using sw_metrics [OF that assms] by simp
qed

lemma middleware_returns:
  assumes "PanicCall \<notin> calls_of (next r)"
  shows "fst (run rw (middleware prom next r) \<sigma>) = Returned ()"
proof -
  obtain a \<sigma>1 where
    "run rw (ServeHTTP_sw (next r) \<lparr>status = 0, length_sw = 0\<rparr>)
       (\<sigma>\<lparr>metrics := metrics \<sigma> @
             [Inc (gv_fqName (reqInFlight prom)) [RequestURI r, Method r]],
          ticks := Suc (ticks \<sigma>)\<rparr>) = (Returned a, \<sigma>1)"
    using sw_returns [OF assms] by blast
  then show ?thesis
    by (simp add: run_middleware split: prod.splits)
qed

text \<open>
  The default fallback handlers, once instrumented, are recorded under "404" and "405".
\<close>

lemma instrumented_fallbacks:
  "metrics (snd (run conn_rw (middleware prom0 http_NotFoundHandler req0) world0)) =
     [Inc ''muxprom_http_requests_inflight'' [''/users/42'', ''GET''],
      Observe ''muxprom_http_request_duration_seconds'' [''/users/42'', ''GET'', ''404''] 1000,
      Observe ''muxprom_http_response_size'' [''/users/42'', ''GET'', ''404''] 19,
      Dec ''muxprom_http_requests_inflight'' [''/users/42'', ''GET'']]"
  "metrics (snd (run conn_rw
     (middleware prom0 (\<lambda>req. WriteHeader 405 (Return ())) req0) world0)) =
     [Inc ''muxprom_http_requests_inflight'' [''/users/42'', ''GET''],
      Observe ''muxprom_http_request_duration_seconds'' [''/users/42'', ''GET'', ''405''] 1000,
      Observe ''muxprom_http_response_size'' [''/users/42'', ''GET'', ''405''] 0,
      Dec ''muxprom_http_requests_inflight'' [''/users/42'', ''GET'']]"
  by (simp_all add: run_middleware run_bind run_sw_WriteHeader run_sw_Write
        http_NotFoundHandler_def conn_rw_def world0_def prom0_def req0_def
        Sprintf_d_404 Sprintf_d_405)

section \<open>The response observer\<close>

text \<open>
  Claim C5. A handler that makes a sequence of body writes through the observer leaves the
  underlying sink exactly as the same writes made on the sink itself would, and gets the same
  results: every slice is forwarded as it is. The observer's \<open>length\<close> has grown by the sum of
  the byte counts the sink reported, which are the bytes it accepted, not the lengths of the
  slices. With a sink that accepts everything, writes of 10 and then 20 bytes make the
  middleware observe a response size of 30.
\<close>

theorem sw_Write_accumulates:
  "(\<exists>rs \<sigma>'.
      run rw (write_all bs) \<sigma> = (Returned rs, \<sigma>') \<and> length rs = length bs \<and>
      run rw (ServeHTTP_sw (write_all bs) w) \<sigma> =
        (Returned (rs, w\<lparr>status := (if status w = 0 \<and> bs \<noteq> [] then 200 else status w),
                         length_sw := length_sw w + sum_list (map fst rs)\<rparr>), \<sigma>')) \<and>
   observations
     (metrics (snd (run conn_rw
        (middleware prom0
           (\<lambda>r. bind (write_all [replicate 10 CHR ''a'', replicate 20 CHR ''b''])
                  (\<lambda>rs. Return ()))
           req0) world0)))
     ''muxprom_http_response_size'' = [([''/users/42'', ''GET'', ''200''], 30)]"
proof
  obtain rs \<sigma>' where r: "run rw (write_all bs) \<sigma> = (Returned rs, \<sigma>')" "length rs = length bs"
    using run_write_all by blast
  then show "\<exists>rs \<sigma>'.
      run rw (write_all bs) \<sigma> = (Returned rs, \<sigma>') \<and> length rs = length bs \<and>
      run rw (ServeHTTP_sw (write_all bs) w) \<sigma> =
        (Returned (rs, w\<lparr>status := (if status w = 0 \<and> bs \<noteq> [] then 200 else status w),
                         length_sw := length_sw w + sum_list (map fst rs)\<rparr>), \<sigma>')"
    by (simp add: run_write_all_sw)
next
  show "observations
     (metrics (snd (run conn_rw
        (middleware prom0
           (\<lambda>r. bind (write_all [replicate 10 CHR ''a'', replicate 20 CHR ''b''])
                  (\<lambda>rs. Return ()))
           req0) world0)))
     ''muxprom_http_response_size'' = [([''/users/42'', ''GET'', ''200''], 30)]"
    by (simp add: run_middleware run_sw_Write run_bind conn_rw_def world0_def prom0_def req0_def
          Sprintf_d_200 observations_def)
qed

theorem sw_Write_accumulates_witness:
  "run conn_rw (write_all [replicate 10 CHR ''a'', replicate 20 CHR ''b'']) world0 =
     (Returned [(10, None), (20, None)],
      world0\<lparr>sink := \<lparr>headers = [], body = replicate 10 CHR ''a'' @ replicate 20 CHR ''b'',
                       room = 34\<rparr>\<rparr>) \<and>
   run conn_rw (ServeHTTP_sw (write_all [replicate 10 CHR ''a'', replicate 20 CHR ''b''])
                  \<lparr>status = 0, length_sw = 0\<rparr>) world0 =
     (Returned ([(10, None), (20, None)], \<lparr>status = 200, length_sw = 30\<rparr>),
      world0\<lparr>sink := \<lparr>headers = [], body = replicate 10 CHR ''a'' @ replicate 20 CHR ''b'',
                       room = 34\<rparr>\<rparr>)"
proof -
  have d: "run conn_rw (write_all [replicate 10 CHR ''a'', replicate 20 CHR ''b'']) world0 =
     (Returned [(10, None), (20, None)],
      world0\<lparr>sink := \<lparr>headers = [], body = replicate 10 CHR ''a'' @ replicate 20 CHR ''b'',
                       room = 34\<rparr>\<rparr>)"
    by (simp add: conn_rw_def world0_def)
  show ?thesis
    using d sw_Write_accumulates [of conn_rw "[replicate 10 CHR ''a'', replicate 20 CHR ''b'']"
                                    world0 "\<lparr>status = 0, length_sw = 0\<rparr>"]
    by auto
qed

text \<open>
  Claim C6. When the write of the underlying sink fails, \<open>statusWriter.Write\<close> hands the
  sink's byte count and error to its caller as they are, and has added that count to its
  \<open>length\<close>: for a sink that answers \<open>(n, err)\<close> with \<open>err\<close> not \<open>nil\<close>, the call returns
  \<open>(n, err)\<close> and leaves \<open>length\<close> increased by \<open>n\<close>.
\<close>

theorem sw_Write_failure:
  assumes "rw_Write rw b (sink \<sigma>) = ((n, Some e), s)"
  shows "run rw (sw_Write w b) \<sigma> =
           (Returned ((n, Some e),
              w\<lparr>status := (if status w = 0 then 200 else status w),
                length_sw := length_sw w + n\<rparr>),
            \<sigma>\<lparr>sink := s\<rparr>)"
  using assms by (simp add: run_sw_Write)

theorem sw_Write_failure_witness:
  "rw_Write conn_rw ''0123456789''
     (sink (world0\<lparr>sink := \<lparr>headers = [], body = [], room = 4\<rparr>\<rparr>)) =
     ((4, Some (Errorf ''short write'')), \<lparr>headers = [], body = ''0123'', room = 0\<rparr>) \<and>
   run conn_rw (sw_Write \<lparr>status = 0, length_sw = 0\<rparr> ''0123456789'')
       (world0\<lparr>sink := \<lparr>headers = [], body = [], room = 4\<rparr>\<rparr>) =
     (Returned ((4, Some (Errorf ''short write'')), \<lparr>status = 200, length_sw = 4\<rparr>),
      world0\<lparr>sink := \<lparr>headers = [], body = ''0123'', room = 0\<rparr>\<rparr>)"
proof -
  have h: "rw_Write conn_rw ''0123456789''
             (sink (world0\<lparr>sink := \<lparr>headers = [], body = [], room = 4\<rparr>\<rparr>)) =
           ((4, Some (Errorf ''short write'')), \<lparr>headers = [], body = ''0123'', room = 0\<rparr>)"
    by (simp add: conn_rw_def)
  show ?thesis
    using h sw_Write_failure [OF h, of "\<lparr>status = 0, length_sw = 0\<rparr>"] by simp
qed

text \<open>
  Claim C7. \<open>statusWriter.Hijack\<close> passes the call on when the underlying sink implements
  \<open>http.Hijacker\<close>: it returns what the sink's \<open>Hijack\<close> returns and the sink is left as that
  call leaves it. When the sink does not implement it, the call returns no connection, no
  buffer and the error "not supported by the underlying writer", and touches nothing.
\<close>

theorem sw_Hijack_passthrough:
  "(rw_Hijack rw = Some hijack \<longrightarrow>
      run rw (sw_Hijack w) \<sigma> =
        (Returned (fst (hijack (sink \<sigma>)), w), \<sigma>\<lparr>sink := snd (hijack (sink \<sigma>))\<rparr>)) \<and>
   (rw_Hijack rw = None \<longrightarrow>
      run rw (sw_Hijack w) \<sigma> =
        (Returned ((None, None, Some (Errorf ''not supported by the underlying writer'')), w),
         \<sigma>))"
  by (simp add: run_sw_Hijack)

theorem sw_Hijack_passthrough_witness:
  "run hijackable_rw (sw_Hijack \<lparr>status = 0, length_sw = 0\<rparr>) world0 =
     (Returned ((Some (Conn 1), Some (ReadWriter 1), None), \<lparr>status = 0, length_sw = 0\<rparr>),
      world0) \<and>
   run conn_rw (sw_Hijack \<lparr>status = 0, length_sw = 0\<rparr>) world0 =
     (Returned ((None, None, Some (Errorf ''not supported by the underlying writer'')),
        \<lparr>status = 0, length_sw = 0\<rparr>), world0)"
proof -
  have a: "rw_Hijack hijackable_rw =
             Some (\<lambda>s. ((Some (Conn 1), Some (ReadWriter 1), None), s))"
    by (simp add: hijackable_rw_def)
  have b: "rw_Hijack conn_rw = None"
    by (simp add: conn_rw_def)
  show ?thesis
    using sw_Hijack_passthrough [of hijackable_rw
            "\<lambda>s. ((Some (Conn 1), Some (ReadWriter 1), None), s)"
            "\<lparr>status = 0, length_sw = 0\<rparr>" world0]
          sw_Hijack_passthrough [of conn_rw "\<lambda>s. ((None, None, None), s)"
            "\<lparr>status = 0, length_sw = 0\<rparr>" world0]
          a b
    by simp
qed

section \<open>Construction and installation\<close>

text \<open>
  Claim C8. When the \<open>Router\<close> field is still \<open>nil\<close> after the options have been applied,
  \<open>New\<close> never returns an instance: it ends in \<open>log.Fatal\<close>, or in the panic of a failed
  registration before that. With a registry in which no name is taken it ends in
  \<open>log.Fatal("You need to set Router")\<close>.
\<close>

theorem New_without_router:
  assumes "Router (foldl (\<lambda>p option. option p) New_literal options) = None"
  shows "(\<forall>x. New promhttp_Handler options registry \<noteq> Done x) \<and>
         New promhttp_Handler options [] = Fatal ''You need to set Router''"
proof
  show "\<forall>x. New promhttp_Handler options registry \<noteq> Done x"
    using assms
    by (auto simp: New_def Let_def split: sum.splits option.splits dest: init_Router)
next
  obtain p' registry'
    where i: "init (foldl (\<lambda>p option. option p) New_literal options) [] = Inr (p', registry')"
    using init_fresh by blast
  then have "Router p' = None"
    using assms init_Router by metis
  with i show "New promhttp_Handler options [] = Fatal ''You need to set Router''"
    by (simp add: New_def Let_def)
qed

theorem New_without_router_witness:
  "Router (foldl (\<lambda>p option. option p) New_literal
             [Namespace_option ''shop'', MetricsPath_option ''/health/metrics'']) = None \<and>
   New (\<lambda>r. Return ()) [Namespace_option ''shop'', MetricsPath_option ''/health/metrics'']
       [''shop_http_response_size''] =
     Panicked ''duplicate metrics collector registration attempted'' \<and>
   New (\<lambda>r. Return ()) [Namespace_option ''shop'', MetricsPath_option ''/health/metrics''] [] =
     Fatal ''You need to set Router''"
proof -
  have h: "Router (foldl (\<lambda>p option. option p) New_literal
             [Namespace_option ''shop'', MetricsPath_option ''/health/metrics'']) = None"
    by (simp add: New_literal_def Namespace_option_def MetricsPath_option_def)
  have p: "New (\<lambda>r. Return ()) [Namespace_option ''shop'', MetricsPath_option ''/health/metrics'']
       [''shop_http_response_size''] =
     Panicked ''duplicate metrics collector registration attempted''"
    by (simp add: New_def New_literal_def Namespace_option_def MetricsPath_option_def init_def
          MustRegister_def BuildFQName_def Let_def)
  show ?thesis
    using h p New_without_router [OF h, of "\<lambda>r. Return ()" "[]"] by simp
qed

text \<open>
  Claim C9. \<open>Instrument\<close> hands one and the same \<open>prom.middleware\<close> to the router's middleware
  chain, wraps the not-found handler in it and wraps the method-not-allowed handler in it,
  taking the default handlers where the router has none; it leaves the routes alone.
\<close>

theorem Instrument_wraps_all_paths:
  assumes "Router prom = Some rt"
  shows "\<exists>rt'. Instrument prom = Inr (prom\<lparr>Router := Some rt'\<rparr>) \<and>
           routes rt' = routes rt \<and>
           middlewares rt' = middlewares rt @ [middleware prom] \<and>
           NotFoundHandler rt' =
             Some (middleware prom
                     (case NotFoundHandler rt of None \<Rightarrow> http_NotFoundHandler | Some h \<Rightarrow> h)) \<and>
           MethodNotAllowedHandler rt' =
             Some (middleware prom
                     (case MethodNotAllowedHandler rt of
                        None \<Rightarrow> (\<lambda>req. WriteHeader 405 (Return ()))
                      | Some h \<Rightarrow> h))"
proof -
  let ?nf = "case NotFoundHandler rt of None \<Rightarrow> http_NotFoundHandler | Some h \<Rightarrow> h"
  let ?mna = "case MethodNotAllowedHandler rt of
                None \<Rightarrow> (\<lambda>req. WriteHeader 405 (Return ()))
              | Some h \<Rightarrow> h"
  let ?rt' = "rt\<lparr>middlewares := middlewares rt @ [middleware prom],
                NotFoundHandler := Some (middleware prom ?nf),
                MethodNotAllowedHandler := Some (middleware prom ?mna)\<rparr>"
  have "Instrument prom = Inr (prom\<lparr>Router := Some ?rt'\<rparr>)"
    using assms
    by (simp add: Instrument_def WrapNotFoundHandler_def WrapMethodNotAllowedHandler_def Let_def)
  then show ?thesis
    by (intro exI [of _ ?rt']) simp
qed

theorem Instrument_wraps_all_paths_witness:
  "Router prom0 = Some router0 \<and>
   Instrument prom0 =
     Inr (prom0\<lparr>Router := Some
            \<lparr>routes = [], middlewares = [middleware prom0],
             NotFoundHandler = Some (middleware prom0 http_NotFoundHandler),
             MethodNotAllowedHandler =
               Some (middleware prom0 (\<lambda>req. WriteHeader 405 (Return ())))\<rparr>\<rparr>)"
proof -
  have h: "Router prom0 = Some router0"
    by (simp add: prom0_def)
  from Instrument_wraps_all_paths [OF h] obtain rt' where
    "Instrument prom0 = Inr (prom0\<lparr>Router := Some rt'\<rparr>)"
    "routes rt' = routes router0"
    "middlewares rt' = middlewares router0 @ [middleware prom0]"
    "NotFoundHandler rt' =
       Some (middleware prom0
               (case NotFoundHandler router0 of None \<Rightarrow> http_NotFoundHandler | Some h \<Rightarrow> h))"
    "MethodNotAllowedHandler rt' =
       Some (middleware prom0
               (case MethodNotAllowedHandler router0 of
                  None \<Rightarrow> (\<lambda>req. WriteHeader 405 (Return ()))
                | Some h \<Rightarrow> h))"
    by blast
  then show ?thesis
    using h by (cases rt') (simp add: router0_def)
qed

section \<open>The instrumentation middleware\<close>

text \<open>
  Claim C1, as amended. For every request that goes through the middleware, the route label
  of every call the middleware makes on its three collectors is the full request URI,
  \<open>r.URL.RequestURI()\<close>, whether or not a route matched: the increment comes first, then
  whatever the wrapped handler itself does to the collectors, and, when the handler has
  returned, the two observations and the decrement.
\<close>

theorem middleware_route_label:
  "\<exists>mid st d n.
     metrics (snd (run rw (middleware prom next r) \<sigma>)) =
       metrics \<sigma> @
       Inc (gv_fqName (reqInFlight prom)) [RequestURI r, Method r] # mid @
       (case fst (run rw (middleware prom next r) \<sigma>) of
          Returned u \<Rightarrow>
            [Observe (hv_fqName (reqDurationHistogram prom)) [RequestURI r, Method r, st] d,
             Observe (hv_fqName (reqRespSizeHistogram prom)) [RequestURI r, Method r, st] n,
             Dec (gv_fqName (reqInFlight prom)) [RequestURI r, Method r]]
        | Panicking v \<Rightarrow> [])"
proof -
  obtain out \<sigma>1 where
    s: "run rw (ServeHTTP_sw (next r) \<lparr>status = 0, length_sw = 0\<rparr>)
           (\<sigma>\<lparr>metrics := metrics \<sigma> @
                 [Inc (gv_fqName (reqInFlight prom)) [RequestURI r, Method r]],
              ticks := Suc (ticks \<sigma>)\<rparr>) = (out, \<sigma>1)"
    by (metis prod.exhaust)
  note served = middleware_served [of rw "next" r \<sigma> prom out \<sigma>1, OF s]
  from served(3) obtain mid where
    mid: "metrics \<sigma>1 =
            metrics \<sigma> @ Inc (gv_fqName (reqInFlight prom)) [RequestURI r, Method r] # mid"
    by blast
  show ?thesis
  proof (cases out)
    case (Returned a)
    then show ?thesis
      using served(1,2) mid by (cases a) auto
  next
    case (Panicking v)
    then show ?thesis
      using served(1,2) mid by simp
  qed
qed

theorem middleware_route_label_witness:
  "metrics (snd (run conn_rw (middleware prom0 (\<lambda>r. WriteHeader 404 (Return ())) req0) world0)) =
     [Inc ''muxprom_http_requests_inflight'' [''/users/42'', ''GET''],
      Observe ''muxprom_http_request_duration_seconds'' [''/users/42'', ''GET'', ''404''] 1000,
      Observe ''muxprom_http_response_size'' [''/users/42'', ''GET'', ''404''] 0,
      Dec ''muxprom_http_requests_inflight'' [''/users/42'', ''GET'']] \<and>
   (\<exists>mid st d n.
      metrics (snd (run conn_rw (middleware prom0 (\<lambda>r. WriteHeader 404 (Return ())) req0) world0)) =
        metrics world0 @
        Inc (gv_fqName (reqInFlight prom0)) [RequestURI req0, Method req0] # mid @
        [Observe (hv_fqName (reqDurationHistogram prom0)) [RequestURI req0, Method req0, st] d,
         Observe (hv_fqName (reqRespSizeHistogram prom0)) [RequestURI req0, Method req0, st] n,
         Dec (gv_fqName (reqInFlight prom0)) [RequestURI req0, Method req0]])"
proof -
  have e: "run conn_rw (middleware prom0 (\<lambda>r. WriteHeader 404 (Return ())) req0) world0 =
             (Returned (),
              world0\<lparr>sink := \<lparr>headers = [404], body = [], room = 64\<rparr>, ticks := 2,
                metrics :=
                  [Inc ''muxprom_http_requests_inflight'' [''/users/42'', ''GET''],
                   Observe ''muxprom_http_request_duration_seconds''
                     [''/users/42'', ''GET'', ''404''] 1000,
                   Observe ''muxprom_http_response_size'' [''/users/42'', ''GET'', ''404''] 0,
                   Dec ''muxprom_http_requests_inflight'' [''/users/42'', ''GET'']]\<rparr>)"
    by (simp add: run_middleware run_bind run_sw_WriteHeader conn_rw_def world0_def prom0_def
          req0_def Sprintf_d_404)
  show ?thesis
    using middleware_route_label [of conn_rw prom0 "\<lambda>r. WriteHeader 404 (Return ())" req0 world0]
          e
    by (simp add: world0_def prom0_def req0_def)
qed

text \<open>
  The claim as the specification states it fails: a request for \<open>/users/42\<close> that matched the
  route \<open>/users/{id}\<close> is recorded under \<open>/users/42\<close>, not under the path template.
\<close>

theorem route_label_ignores_path_template:
  "CurrentRoute req0 = Some ''/users/{id}'' \<and>
   metrics (snd (run conn_rw (middleware prom0 (\<lambda>r. Return ()) req0) world0)) =
     [Inc ''muxprom_http_requests_inflight'' [''/users/42'', ''GET''],
      Observe ''muxprom_http_request_duration_seconds'' [''/users/42'', ''GET'', ''0''] 1000,
      Observe ''muxprom_http_response_size'' [''/users/42'', ''GET'', ''0''] 0,
      Dec ''muxprom_http_requests_inflight'' [''/users/42'', ''GET'']] \<and>
   metrics (snd (run conn_rw (middleware prom0 (\<lambda>r. Return ()) req0) world0)) \<noteq>
     [Inc ''muxprom_http_requests_inflight'' [''/users/{id}'', ''GET''],
      Observe ''muxprom_http_request_duration_seconds'' [''/users/{id}'', ''GET'', ''0''] 1000,
      Observe ''muxprom_http_response_size'' [''/users/{id}'', ''GET'', ''0''] 0,
      Dec ''muxprom_http_requests_inflight'' [''/users/{id}'', ''GET'']]"
  by (simp add: run_middleware conn_rw_def world0_def prom0_def req0_def Sprintf_d_0)

text \<open>
  Claim C2, as amended. One status is attributed to a request and the last status set wins.
  First, when the handler has returned, both observations carry the same status label, the
  value of the observer's \<open>status\<close> field at that moment. Second, whatever a handler did
  before, a final \<open>WriteHeader st\<close> leaves \<open>status = st\<close>. Third, a handler that calls
  \<open>WriteHeader\<close> with 404 and then with 500 is recorded under the status label "500" in both
  histograms.
\<close>

theorem last_WriteHeader_wins:
  "(run rw (ServeHTTP_sw (next r) \<lparr>status = 0, length_sw = 0\<rparr>)
      (\<sigma>\<lparr>metrics := metrics \<sigma> @
            [Inc (gv_fqName (reqInFlight prom)) [RequestURI r, Method r]],
         ticks := Suc (ticks \<sigma>)\<rparr>) = (Returned (u, sw), \<sigma>1) \<longrightarrow>
    metrics (snd (run rw (middleware prom next r) \<sigma>)) =
      metrics \<sigma>1 @
      [Observe (hv_fqName (reqDurationHistogram prom))
         [RequestURI r, Method r, Sprintf_d (status sw)]
         (clock \<sigma>1 (ticks \<sigma>1) - clock \<sigma> (ticks \<sigma>)),
       Observe (hv_fqName (reqRespSizeHistogram prom))
         [RequestURI r, Method r, Sprintf_d (status sw)] (sint (length_sw sw)),
       Dec (gv_fqName (reqInFlight prom)) [RequestURI r, Method r]]) \<and>
   (run rw (ServeHTTP_sw (bind p (\<lambda>a. WriteHeader st (Return ()))) w) \<sigma> =
      (Returned (u', w'), \<sigma>') \<longrightarrow> status w' = st) \<and>
   metrics (snd (run rw
     (middleware prom (\<lambda>r. WriteHeader 404 (WriteHeader 500 (Return ()))) r) \<sigma>)) =
     metrics \<sigma> @
     [Inc (gv_fqName (reqInFlight prom)) [RequestURI r, Method r],
      Observe (hv_fqName (reqDurationHistogram prom)) [RequestURI r, Method r, ''500'']
        (clock \<sigma> (Suc (ticks \<sigma>)) - clock \<sigma> (ticks \<sigma>)),
      Observe (hv_fqName (reqRespSizeHistogram prom)) [RequestURI r, Method r, ''500''] 0,
      Dec (gv_fqName (reqInFlight prom)) [RequestURI r, Method r]]"
proof (intro conjI impI)
  assume "run rw (ServeHTTP_sw (next r) \<lparr>status = 0, length_sw = 0\<rparr>)
      (\<sigma>\<lparr>metrics := metrics \<sigma> @
            [Inc (gv_fqName (reqInFlight prom)) [RequestURI r, Method r]],
         ticks := Suc (ticks \<sigma>)\<rparr>) = (Returned (u, sw), \<sigma>1)"
  then show "metrics (snd (run rw (middleware prom next r) \<sigma>)) =
      metrics \<sigma>1 @
      [Observe (hv_fqName (reqDurationHistogram prom))
         [RequestURI r, Method r, Sprintf_d (status sw)]
         (clock \<sigma>1 (ticks \<sigma>1) - clock \<sigma> (ticks \<sigma>)),
       Observe (hv_fqName (reqRespSizeHistogram prom))
         [RequestURI r, Method r, Sprintf_d (status sw)] (sint (length_sw sw)),
       Dec (gv_fqName (reqInFlight prom)) [RequestURI r, Method r]]"
    by (simp add: run_middleware)
next
  assume "run rw (ServeHTTP_sw (bind p (\<lambda>a. WriteHeader st (Return ()))) w) \<sigma> =
            (Returned (u', w'), \<sigma>')"
  then show "status w' = st"
    by (auto simp: ServeHTTP_sw_bind run_bind run_sw_WriteHeader
             split: prod.splits outcome.splits)
next
  show "metrics (snd (run rw
     (middleware prom (\<lambda>r. WriteHeader 404 (WriteHeader 500 (Return ()))) r) \<sigma>)) =
     metrics \<sigma> @
     [Inc (gv_fqName (reqInFlight prom)) [RequestURI r, Method r],
      Observe (hv_fqName (reqDurationHistogram prom)) [RequestURI r, Method r, ''500'']
        (clock \<sigma> (Suc (ticks \<sigma>)) - clock \<sigma> (ticks \<sigma>)),
      Observe (hv_fqName (reqRespSizeHistogram prom)) [RequestURI r, Method r, ''500''] 0,
      Dec (gv_fqName (reqInFlight prom)) [RequestURI r, Method r]]"
    by (simp add: run_middleware run_bind run_sw_WriteHeader Sprintf_d_500)
qed

theorem last_WriteHeader_wins_witness:
  "run conn_rw
     (ServeHTTP_sw (WriteHeader 404 (WriteHeader 500 (Return ()))) \<lparr>status = 0, length_sw = 0\<rparr>)
     (world0\<lparr>metrics := metrics world0 @
               [Inc (gv_fqName (reqInFlight prom0)) [RequestURI req0, Method req0]],
             ticks := Suc (ticks world0)\<rparr>) =
     (Returned ((), \<lparr>status = 500, length_sw = 0\<rparr>),
      world0\<lparr>sink := \<lparr>headers = [404, 500], body = [], room = 64\<rparr>, ticks := 1,
        metrics := [Inc ''muxprom_http_requests_inflight'' [''/users/42'', ''GET'']]\<rparr>) \<and>
   metrics (snd (run conn_rw
     (middleware prom0 (\<lambda>r. WriteHeader 404 (WriteHeader 500 (Return ()))) req0) world0)) =
     [Inc ''muxprom_http_requests_inflight'' [''/users/42'', ''GET''],
      Observe ''muxprom_http_request_duration_seconds'' [''/users/42'', ''GET'', ''500''] 1000,
      Observe ''muxprom_http_response_size'' [''/users/42'', ''GET'', ''500''] 0,
      Dec ''muxprom_http_requests_inflight'' [''/users/42'', ''GET'']] \<and>
   run conn_rw (ServeHTTP_sw (bind (WriteHeader 404 (Return ())) (\<lambda>a. WriteHeader 500 (Return ())))
                  \<lparr>status = 0, length_sw = 0\<rparr>) world0 =
     (Returned ((), \<lparr>status = 500, length_sw = 0\<rparr>),
      world0\<lparr>sink := \<lparr>headers = [404, 500], body = [], room = 64\<rparr>\<rparr>) \<and>
   status \<lparr>status = 500, length_sw = 0\<rparr> = 500"
proof -
  have a: "run conn_rw
     (ServeHTTP_sw ((\<lambda>r. WriteHeader 404 (WriteHeader 500 (Return ()))) req0)
        \<lparr>status = 0, length_sw = 0\<rparr>)
     (world0\<lparr>metrics := metrics world0 @
               [Inc (gv_fqName (reqInFlight prom0)) [RequestURI req0, Method req0]],
             ticks := Suc (ticks world0)\<rparr>) =
     (Returned ((), \<lparr>status = 500, length_sw = 0\<rparr>),
      world0\<lparr>sink := \<lparr>headers = [404, 500], body = [], room = 64\<rparr>, ticks := 1,
        metrics := [Inc ''muxprom_http_requests_inflight'' [''/users/42'', ''GET'']]\<rparr>)"
    by (simp add: run_bind run_sw_WriteHeader conn_rw_def world0_def prom0_def req0_def)
  have e: "run conn_rw
             (ServeHTTP_sw (bind (WriteHeader 404 (Return ())) (\<lambda>a. WriteHeader 500 (Return ())))
                \<lparr>status = 0, length_sw = 0\<rparr>) world0 =
           (Returned ((), \<lparr>status = 500, length_sw = 0\<rparr>),
            world0\<lparr>sink := \<lparr>headers = [404, 500], body = [], room = 64\<rparr>\<rparr>)"
    by (simp add: run_bind run_sw_WriteHeader conn_rw_def world0_def)
  show ?thesis
    using a e last_WriteHeader_wins
            [of conn_rw "\<lambda>r. WriteHeader 404 (WriteHeader 500 (Return ()))" req0 world0 prom0
                "()" "\<lparr>status = 500, length_sw = 0\<rparr>"
                "world0\<lparr>sink := \<lparr>headers = [404, 500], body = [], room = 64\<rparr>, ticks := 1,
                   metrics := [Inc ''muxprom_http_requests_inflight'' [''/users/42'', ''GET'']]\<rparr>"
                "WriteHeader 404 (Return ())" 500 "\<lparr>status = 0, length_sw = 0\<rparr>"
                "()" "\<lparr>status = 500, length_sw = 0\<rparr>"
                "world0\<lparr>sink := \<lparr>headers = [404, 500], body = [], room = 64\<rparr>\<rparr>"]
    by (simp add: world0_def prom0_def req0_def Sprintf_d_500)
qed

text \<open>
  The claim as the specification states it fails: the sink receives 404 and then 500, and
  the request is recorded under "500", not under the first status "404".
\<close>

theorem first_status_overwritten:
  "sink (snd (run conn_rw
     (middleware prom0 (\<lambda>r. WriteHeader 404 (WriteHeader 500 (Return ()))) req0) world0)) =
     \<lparr>headers = [404, 500], body = [], room = 64\<rparr> \<and>
   metrics (snd (run conn_rw
     (middleware prom0 (\<lambda>r. WriteHeader 404 (WriteHeader 500 (Return ()))) req0) world0)) =
     [Inc ''muxprom_http_requests_inflight'' [''/users/42'', ''GET''],
      Observe ''muxprom_http_request_duration_seconds'' [''/users/42'', ''GET'', ''500''] 1000,
      Observe ''muxprom_http_response_size'' [''/users/42'', ''GET'', ''500''] 0,
      Dec ''muxprom_http_requests_inflight'' [''/users/42'', ''GET'']] \<and>
   metrics (snd (run conn_rw
     (middleware prom0 (\<lambda>r. WriteHeader 404 (WriteHeader 500 (Return ()))) req0) world0)) \<noteq>
     [Inc ''muxprom_http_requests_inflight'' [''/users/42'', ''GET''],
      Observe ''muxprom_http_request_duration_seconds'' [''/users/42'', ''GET'', ''404''] 1000,
      Observe ''muxprom_http_response_size'' [''/users/42'', ''GET'', ''404''] 0,
      Dec ''muxprom_http_requests_inflight'' [''/users/42'', ''GET'']]"
  by (simp add: run_middleware run_bind run_sw_WriteHeader conn_rw_def world0_def prom0_def
        req0_def Sprintf_d_500)

text \<open>
  Claim C3, as amended. For every request whose wrapped handler returns normally (as every
  handler without a \<open>panic\<close> does), the middleware increments the in-flight gauge keyed by
  route and method exactly once, before the handler runs, and decrements it exactly once,
  after the two observations. The calls in between, \<open>mid\<close>, are those the wrapped handler
  makes on the collectors itself, none for an application handler; the value of every gauge
  child changes over the request by what \<open>mid\<close> does to it and by nothing else, so the
  middleware's own net change is zero.
\<close>

theorem in_flight_paired_on_return:
  "(PanicCall \<notin> calls_of (next r) \<longrightarrow>
      fst (run rw (middleware prom next r) \<sigma>) = Returned ()) \<and>
   (fst (run rw (middleware prom next r) \<sigma>) = Returned () \<longrightarrow>
      (\<exists>mid st d n.
         metrics (snd (run rw (middleware prom next r) \<sigma>)) =
           metrics \<sigma> @
           Inc (gv_fqName (reqInFlight prom)) [RequestURI r, Method r] # mid @
           [Observe (hv_fqName (reqDurationHistogram prom)) [RequestURI r, Method r, st] d,
            Observe (hv_fqName (reqRespSizeHistogram prom)) [RequestURI r, Method r, st] n,
            Dec (gv_fqName (reqInFlight prom)) [RequestURI r, Method r]] \<and>
         (MetricCall \<notin> calls_of (next r) \<longrightarrow> mid = []) \<and>
         (\<forall>g lvs.
            gauge_value (metrics (snd (run rw (middleware prom next r) \<sigma>))) g lvs =
            gauge_value (metrics \<sigma>) g lvs + gauge_value mid g lvs)))"
proof (intro conjI impI)
  assume "PanicCall \<notin> calls_of (next r)"
  then show "fst (run rw (middleware prom next r) \<sigma>) = Returned ()"
    by (rule middleware_returns)
next
  assume ret: "fst (run rw (middleware prom next r) \<sigma>) = Returned ()"
  obtain out \<sigma>1 where
    s: "run rw (ServeHTTP_sw (next r) \<lparr>status = 0, length_sw = 0\<rparr>)
           (\<sigma>\<lparr>metrics := metrics \<sigma> @
                 [Inc (gv_fqName (reqInFlight prom)) [RequestURI r, Method r]],
              ticks := Suc (ticks \<sigma>)\<rparr>) = (out, \<sigma>1)"
    by (metis prod.exhaust)
  note served = middleware_served [of rw "next" r \<sigma> prom out \<sigma>1, OF s]
  from served(3) obtain mid where
    mid: "metrics \<sigma>1 =
            metrics \<sigma> @ Inc (gv_fqName (reqInFlight prom)) [RequestURI r, Method r] # mid"
    by blast
  from ret served(1) obtain u sw where out: "out = Returned (u, sw)"
    by (cases out) auto
  let ?tail = "[Observe (hv_fqName (reqDurationHistogram prom))
                  [RequestURI r, Method r, Sprintf_d (status sw)]
                  (clock \<sigma>1 (ticks \<sigma>1) - clock \<sigma> (ticks \<sigma>)),
                Observe (hv_fqName (reqRespSizeHistogram prom))
                  [RequestURI r, Method r, Sprintf_d (status sw)] (sint (length_sw sw)),
                Dec (gv_fqName (reqInFlight prom)) [RequestURI r, Method r]]"
  have m: "metrics (snd (run rw (middleware prom next r) \<sigma>)) =
             metrics \<sigma> @
             Inc (gv_fqName (reqInFlight prom)) [RequestURI r, Method r] # mid @ ?tail"
    using served(2) mid out by simp
  have e: "MetricCall \<notin> calls_of (next r) \<longrightarrow> mid = []"
    using served(4) mid by simp
  have g: "\<forall>g lvs.
             gauge_value (metrics (snd (run rw (middleware prom next r) \<sigma>))) g lvs =
             gauge_value (metrics \<sigma>) g lvs + gauge_value mid g lvs"
    by (simp add: m gauge_value_def)
  show "\<exists>mid st d n.
         metrics (snd (run rw (middleware prom next r) \<sigma>)) =
           metrics \<sigma> @
           Inc (gv_fqName (reqInFlight prom)) [RequestURI r, Method r] # mid @
           [Observe (hv_fqName (reqDurationHistogram prom)) [RequestURI r, Method r, st] d,
            Observe (hv_fqName (reqRespSizeHistogram prom)) [RequestURI r, Method r, st] n,
            Dec (gv_fqName (reqInFlight prom)) [RequestURI r, Method r]] \<and>
         (MetricCall \<notin> calls_of (next r) \<longrightarrow> mid = []) \<and>
         (\<forall>g lvs.
            gauge_value (metrics (snd (run rw (middleware prom next r) \<sigma>))) g lvs =
            gauge_value (metrics \<sigma>) g lvs + gauge_value mid g lvs)"
    using m e g by blast
qed

theorem in_flight_paired_on_return_witness:
  "PanicCall \<notin> calls_of (Write ''hello'' (\<lambda>res. Return ())) \<and>
   MetricCall \<notin> calls_of (Write ''hello'' (\<lambda>res. Return ())) \<and>
   fst (run conn_rw (middleware prom0 (\<lambda>r. Write ''hello'' (\<lambda>res. Return ())) req0) world0) =
     Returned () \<and>
   metrics (snd (run conn_rw (middleware prom0 (\<lambda>r. Write ''hello'' (\<lambda>res. Return ())) req0)
                   world0)) =
     [Inc ''muxprom_http_requests_inflight'' [''/users/42'', ''GET''],
      Observe ''muxprom_http_request_duration_seconds'' [''/users/42'', ''GET'', ''200''] 1000,
      Observe ''muxprom_http_response_size'' [''/users/42'', ''GET'', ''200''] 5,
      Dec ''muxprom_http_requests_inflight'' [''/users/42'', ''GET'']] \<and>
   gauge_value
     (metrics (snd (run conn_rw (middleware prom0 (\<lambda>r. Write ''hello'' (\<lambda>res. Return ())) req0)
                      world0)))
     ''muxprom_http_requests_inflight'' [''/users/42'', ''GET''] =
   gauge_value (metrics world0) ''muxprom_http_requests_inflight'' [''/users/42'', ''GET'']"
proof -
  have e: "run conn_rw (middleware prom0 (\<lambda>r. Write ''hello'' (\<lambda>res. Return ())) req0) world0 =
             (Returned (),
              world0\<lparr>sink := \<lparr>headers = [], body = ''hello'', room = 59\<rparr>, ticks := 2,
                metrics :=
                  [Inc ''muxprom_http_requests_inflight'' [''/users/42'', ''GET''],
                   Observe ''muxprom_http_request_duration_seconds''
                     [''/users/42'', ''GET'', ''200''] 1000,
                   Observe ''muxprom_http_response_size'' [''/users/42'', ''GET'', ''200''] 5,
                   Dec ''muxprom_http_requests_inflight'' [''/users/42'', ''GET'']]\<rparr>)"
    by (simp add: run_middleware run_bind run_sw_Write conn_rw_def world0_def prom0_def
          req0_def Sprintf_d_200)
  have g: "gauge_value
     (metrics (snd (run conn_rw (middleware prom0 (\<lambda>r. Write ''hello'' (\<lambda>res. Return ())) req0)
                      world0)))
     ''muxprom_http_requests_inflight'' [''/users/42'', ''GET''] =
   gauge_value (metrics world0) ''muxprom_http_requests_inflight'' [''/users/42'', ''GET'']"
    using in_flight_paired_on_return
            [of "\<lambda>r. Write ''hello'' (\<lambda>res. Return ())" req0 conn_rw prom0 world0]
    by (auto simp: e gauge_value_def)
  show ?thesis
    using e g by simp
qed

text \<open>
  The claim as the specification states it fails for a handler that panics: the panic leaves
  the middleware before the decrement, so the gauge child stays one higher than it was.
\<close>

theorem in_flight_stuck_on_panic:
  "fst (run conn_rw (middleware prom0 (\<lambda>r. Panic ''boom'') req0) world0) = Panicking ''boom'' \<and>
   metrics (snd (run conn_rw (middleware prom0 (\<lambda>r. Panic ''boom'') req0) world0)) =
     [Inc ''muxprom_http_requests_inflight'' [''/users/42'', ''GET'']] \<and>
   gauge_value (metrics world0) ''muxprom_http_requests_inflight'' [''/users/42'', ''GET''] = 0 \<and>
   gauge_value (metrics (snd (run conn_rw (middleware prom0 (\<lambda>r. Panic ''boom'') req0) world0)))
     ''muxprom_http_requests_inflight'' [''/users/42'', ''GET''] = 1"
  by (simp add: run_middleware conn_rw_def world0_def prom0_def req0_def gauge_value_def)

text \<open>
  Claim C4. When the wrapped handler never calls \<open>WriteHeader\<close> and writes body bytes before
  it returns, both observations of the request carry the status label "200". The observer
  sets the status before it forwards: a first \<open>Write\<close> on a fresh observer ends with
  \<open>status = 200\<close> whatever the sink answers.
\<close>

theorem implicit_status_200:
  assumes "WriteHeaderCall \<notin> calls_of (next r)"
    and "writes_body (next r)"
    and "fst (run rw (middleware prom next r) \<sigma>) = Returned ()"
  shows "(\<exists>mid d n.
            metrics (snd (run rw (middleware prom next r) \<sigma>)) =
              metrics \<sigma> @
              Inc (gv_fqName (reqInFlight prom)) [RequestURI r, Method r] # mid @
              [Observe (hv_fqName (reqDurationHistogram prom))
                 [RequestURI r, Method r, ''200''] d,
               Observe (hv_fqName (reqRespSizeHistogram prom))
                 [RequestURI r, Method r, ''200''] n,
               Dec (gv_fqName (reqInFlight prom)) [RequestURI r, Method r]]) \<and>
         (\<exists>res \<sigma>'.
            run rw (sw_Write \<lparr>status = 0, length_sw = l\<rparr> b) \<sigma> =
              (Returned (res, \<lparr>status = 200, length_sw = l + fst res\<rparr>), \<sigma>'))"
proof
  obtain out \<sigma>1 where
    s: "run rw (ServeHTTP_sw (next r) \<lparr>status = 0, length_sw = 0\<rparr>)
           (\<sigma>\<lparr>metrics := metrics \<sigma> @
                 [Inc (gv_fqName (reqInFlight prom)) [RequestURI r, Method r]],
              ticks := Suc (ticks \<sigma>)\<rparr>) = (out, \<sigma>1)"
    by (metis prod.exhaust)
  note served = middleware_served [of rw "next" r \<sigma> prom out \<sigma>1, OF s]
  from served(3) obtain mid where
    mid: "metrics \<sigma>1 =
            metrics \<sigma> @ Inc (gv_fqName (reqInFlight prom)) [RequestURI r, Method r] # mid"
    by blast
  from assms(3) served(1) obtain u sw where out: "out = Returned (u, sw)"
    by (cases out) auto
  have "status sw = 200"
    using sw_status_200 [OF assms(1) _ s [unfolded out]] assms(2) by simp
  then show "\<exists>mid d n.
            metrics (snd (run rw (middleware prom next r) \<sigma>)) =
              metrics \<sigma> @
              Inc (gv_fqName (reqInFlight prom)) [RequestURI r, Method r] # mid @
              [Observe (hv_fqName (reqDurationHistogram prom))
                 [RequestURI r, Method r, ''200''] d,
               Observe (hv_fqName (reqRespSizeHistogram prom))
                 [RequestURI r, Method r, ''200''] n,
               Dec (gv_fqName (reqInFlight prom)) [RequestURI r, Method r]]"
    using served(2) mid out by (simp add: Sprintf_d_200)
next
  show "\<exists>res \<sigma>'.
          run rw (sw_Write \<lparr>status = 0, length_sw = l\<rparr> b) \<sigma> =
            (Returned (res, \<lparr>status = 200, length_sw = l + fst res\<rparr>), \<sigma>')"
    by (simp add: run_sw_Write)
qed

theorem implicit_status_200_witness:
  "WriteHeaderCall \<notin> calls_of (Write ''hello'' (\<lambda>res. Return ())) \<and>
   writes_body (Write ''hello'' (\<lambda>res. Return ())) \<and>
   run conn_rw (middleware prom0 (\<lambda>r. Write ''hello'' (\<lambda>res. Return ())) req0) world0 =
     (Returned (),
      world0\<lparr>sink := \<lparr>headers = [], body = ''hello'', room = 59\<rparr>, ticks := 2,
        metrics :=
          [Inc ''muxprom_http_requests_inflight'' [''/users/42'', ''GET''],
           Observe ''muxprom_http_request_duration_seconds''
             [''/users/42'', ''GET'', ''200''] 1000,
           Observe ''muxprom_http_response_size'' [''/users/42'', ''GET'', ''200''] 5,
           Dec ''muxprom_http_requests_inflight'' [''/users/42'', ''GET'']]\<rparr>) \<and>
   run conn_rw (sw_Write \<lparr>status = 0, length_sw = 0\<rparr> ''hello'') world0 =
     (Returned ((5, None), \<lparr>status = 200, length_sw = 5\<rparr>),
      world0\<lparr>sink := \<lparr>headers = [], body = ''hello'', room = 59\<rparr>\<rparr>)"
proof -
  have e: "run conn_rw (middleware prom0 (\<lambda>r. Write ''hello'' (\<lambda>res. Return ())) req0) world0 =
             (Returned (),
              world0\<lparr>sink := \<lparr>headers = [], body = ''hello'', room = 59\<rparr>, ticks := 2,
                metrics :=
                  [Inc ''muxprom_http_requests_inflight'' [''/users/42'', ''GET''],
                   Observe ''muxprom_http_request_duration_seconds''
                     [''/users/42'', ''GET'', ''200''] 1000,
                   Observe ''muxprom_http_response_size'' [''/users/42'', ''GET'', ''200''] 5,
                   Dec ''muxprom_http_requests_inflight'' [''/users/42'', ''GET'']]\<rparr>)"
    by (simp add: run_middleware run_bind run_sw_Write conn_rw_def world0_def prom0_def
          req0_def Sprintf_d_200)
  have f: "run conn_rw (sw_Write \<lparr>status = 0, length_sw = 0\<rparr> ''hello'') world0 =
     (Returned ((5, None), \<lparr>status = 200, length_sw = 5\<rparr>),
      world0\<lparr>sink := \<lparr>headers = [], body = ''hello'', room = 59\<rparr>\<rparr>)"
    by (simp add: run_sw_Write conn_rw_def world0_def)
  show ?thesis
    using e f implicit_status_200
                [of "\<lambda>r. Write ''hello'' (\<lambda>res. Return ())" req0 conn_rw prom0 world0 0
                    "''hello''"]
    by simp
qed

text \<open>
  Claim C10. When the wrapped handler neither calls \<open>WriteHeader\<close> nor \<open>Write\<close> and returns,
  the observer's \<open>status\<close> is still its zero value, and both observations of the request carry
  the status label "0", not "200"; the observed size is 0.
\<close>

theorem zero_status_without_writes:
  assumes "WriteHeaderCall \<notin> calls_of (next r)"
    and "WriteCall \<notin> calls_of (next r)"
    and "fst (run rw (middleware prom next r) \<sigma>) = Returned ()"
  shows "\<exists>mid d.
           metrics (snd (run rw (middleware prom next r) \<sigma>)) =
             metrics \<sigma> @
             Inc (gv_fqName (reqInFlight prom)) [RequestURI r, Method r] # mid @
             [Observe (hv_fqName (reqDurationHistogram prom)) [RequestURI r, Method r, ''0''] d,
              Observe (hv_fqName (reqRespSizeHistogram prom)) [RequestURI r, Method r, ''0''] 0,
              Dec (gv_fqName (reqInFlight prom)) [RequestURI r, Method r]]"
proof -
  obtain out \<sigma>1 where
    s: "run rw (ServeHTTP_sw (next r) \<lparr>status = 0, length_sw = 0\<rparr>)
           (\<sigma>\<lparr>metrics := metrics \<sigma> @
                 [Inc (gv_fqName (reqInFlight prom)) [RequestURI r, Method r]],
              ticks := Suc (ticks \<sigma>)\<rparr>) = (out, \<sigma>1)"
    by (metis prod.exhaust)
  note served = middleware_served [of rw "next" r \<sigma> prom out \<sigma>1, OF s]
  from served(3) obtain mid where
    mid: "metrics \<sigma>1 =
            metrics \<sigma> @ Inc (gv_fqName (reqInFlight prom)) [RequestURI r, Method r] # mid"
    by blast
  from assms(3) served(1) obtain u sw where out: "out = Returned (u, sw)"
    by (cases out) auto
  have "sw = \<lparr>status = 0, length_sw = 0\<rparr>"
    using sw_untouched [OF assms(1) assms(2) s [unfolded out]] .
  then show ?thesis
    using served(2) mid out by (simp add: Sprintf_d_0)
qed

theorem zero_status_without_writes_witness:
  "WriteHeaderCall \<notin> calls_of (Hijack (\<lambda>res. Return ())) \<and>
   WriteCall \<notin> calls_of (Hijack (\<lambda>res. Return ())) \<and>
   run conn_rw (middleware prom0 (\<lambda>r. Hijack (\<lambda>res. Return ())) req0) world0 =
     (Returned (),
      world0\<lparr>ticks := 2,
        metrics :=
          [Inc ''muxprom_http_requests_inflight'' [''/users/42'', ''GET''],
           Observe ''muxprom_http_request_duration_seconds''
             [''/users/42'', ''GET'', ''0''] 1000,
           Observe ''muxprom_http_response_size'' [''/users/42'', ''GET'', ''0''] 0,
           Dec ''muxprom_http_requests_inflight'' [''/users/42'', ''GET'']]\<rparr>)"
proof -
  have e: "run conn_rw (middleware prom0 (\<lambda>r. Hijack (\<lambda>res. Return ())) req0) world0 =
     (Returned (),
      world0\<lparr>ticks := 2,
        metrics :=
          [Inc ''muxprom_http_requests_inflight'' [''/users/42'', ''GET''],
           Observe ''muxprom_http_request_duration_seconds''
             [''/users/42'', ''GET'', ''0''] 1000,
           Observe ''muxprom_http_response_size'' [''/users/42'', ''GET'', ''0''] 0,
           Dec ''muxprom_http_requests_inflight'' [''/users/42'', ''GET'']]\<rparr>)"
    by (simp add: run_middleware run_bind run_sw_Hijack conn_rw_def world0_def prom0_def
          req0_def Sprintf_d_0)
  show ?thesis
    using e zero_status_without_writes
              [of "\<lambda>r. Hijack (\<lambda>res. Return ())" req0 conn_rw prom0 world0]
    by simp
qed

end
